theory Spec2Isabelle
  imports Complex_Main "HOL-Library.Multiset" "HOL-Library.AList"
begin

section \<open>Python values used by the backend\<close>

text \<open>
  The backend (\<^verbatim>\<open>src/src/backend.py\<close>) works on dictionaries whose entries may be
  missing, may hold \<^verbatim>\<open>None\<close>, or hold a string. An entry of a comment dictionary is a
  \<open>field\<close>. Exceptions are values of \<open>error\<close>; a function that can raise returns
  \<open>error + 'a\<close> with \<open>Inl\<close> for the exception.
\<close>

datatype error =
    AttributeError
  | KeyError
  | TypeError
  | ValueError
  | ZeroDivisionError
  | StatisticsError
  | HTTPError nat
  | RuntimeError string
  | ProviderFailure string

datatype field = Absent | Null | Str string

text \<open>\<^verbatim>\<open>d.get(k)\<close>: a missing key reads as \<^verbatim>\<open>None\<close>.\<close>

fun get_field :: "field \<Rightarrow> field" where
  "get_field Absent = Null"
| "get_field f = f"

text \<open>\<^verbatim>\<open>d.get(k, default)\<close>: only a missing key takes the default.\<close>

fun get_default :: "field \<Rightarrow> string \<Rightarrow> field" where
  "get_default Absent d = Str d"
| "get_default f d = f"

text \<open>Truthiness of a field value: \<^verbatim>\<open>None\<close> and the empty string are falsy.\<close>

fun truthy :: "field \<Rightarrow> bool" where
  "truthy (Str s) = (s \<noteq> [])"
| "truthy _ = False"

text \<open>\<^verbatim>\<open>a or b\<close>: the first operand when it is truthy, the second otherwise.\<close>

definition py_or :: "field \<Rightarrow> field \<Rightarrow> field" where
  "py_or a b = (if truthy a then a else b)"

section \<open>Strings\<close>

text \<open>
  A \<open>string\<close> is a list of characters; a character stands for the code point of the same
  number (0 to 255). \<open>is_space\<close> is \<^verbatim>\<open>str.isspace\<close> on that range, \<open>lower_char\<close> is
  \<^verbatim>\<open>str.lower\<close> on one character of that range.
\<close>

definition is_space :: "char \<Rightarrow> bool" where
  "is_space c =
     (let n = (of_char c :: nat)
      in (9 \<le> n \<and> n \<le> 13) \<or> (28 \<le> n \<and> n \<le> 32) \<or> n = 133 \<or> n = 160)"

definition lower_char :: "char \<Rightarrow> char" where
  "lower_char c =
     (let n = (of_char c :: nat)
      in if (65 \<le> n \<and> n \<le> 90) \<or> (192 \<le> n \<and> n \<le> 222 \<and> n \<noteq> 215)
         then char_of (n + 32) else c)"

definition lower :: "string \<Rightarrow> string" where
  "lower s = map lower_char s"

text \<open>\<^verbatim>\<open>s.strip()\<close>: leading and trailing whitespace removed.\<close>

definition strip :: "string \<Rightarrow> string" where
  "strip s = rev (dropWhile is_space (rev (dropWhile is_space s)))"

text \<open>
  \<^verbatim>\<open>s.split()\<close>: the maximal runs of non-whitespace characters, in order. The first
  argument is the word being read, reversed.
\<close>

fun split_from :: "string \<Rightarrow> string \<Rightarrow> string list" where
  "split_from cur [] = (if cur = [] then [] else [rev cur])"
| "split_from cur (c # cs) =
     (if is_space c
      then (if cur = [] then split_from [] cs else rev cur # split_from [] cs)
      else split_from (c # cur) cs)"

definition split :: "string \<Rightarrow> string list" where
  "split s = split_from [] s"

text \<open>\<^verbatim>\<open>t.startswith(s)\<close> and the substring test \<^verbatim>\<open>s in t\<close>.\<close>

fun startswith :: "string \<Rightarrow> string \<Rightarrow> bool" where
  "startswith t [] = True"
| "startswith [] (c # s) = False"
| "startswith (d # t) (c # s) = (c = d \<and> startswith t s)"

fun py_in :: "string \<Rightarrow> string \<Rightarrow> bool" where
  "py_in s [] = (s = [])"
| "py_in s (d # t) = (startswith (d # t) s \<or> py_in s t)"

text \<open>\<^verbatim>\<open>safe_truncate(text, max_len)\<close>; the default of \<open>max_len\<close> is 2000.\<close>

definition safe_truncate :: "string \<Rightarrow> nat \<Rightarrow> string" where
  "safe_truncate txt max_len =
     (if txt = [] then txt
      else if length txt \<le> max_len then txt else take max_len txt @ ''...'')"

section \<open>Relevance filter\<close>

record comment =
  author :: field
  "text" :: field
  body :: field

definition high_value_keywords :: "(string \<times> int) list" where
  "high_value_keywords =
     [(''buy'', 3), (''sell'', 3), (''hold'', 2), (''invest'', 2), (''investing'', 2),
      (''portfolio'', 2), (''bullish'', 3), (''bearish'', 3), (''long term'', 3),
      (''short term'', 2),
      (''overvalued'', 3), (''undervalued'', 3), (''valuation'', 2), (''target price'', 3),
      (''fair value'', 2), (''intrinsic value'', 3), (''discounted'', 2),
      (''pe ratio'', 2), (''p/e'', 2), (''eps'', 2), (''revenue'', 2), (''earnings'', 2),
      (''profit'', 2), (''dividend'', 2), (''yield'', 2), (''cash flow'', 2), (''debt'', 2),
      (''margin'', 2),
      (''fundamentals'', 2), (''analysis'', 1), (''forecast'', 2), (''prediction'', 2),
      (''outlook'', 2), (''due diligence'', 3), (''dcf'', 2), (''balance sheet'', 2),
      (''income statement'', 2),
      (''risk'', 2), (''reward'', 2), (''opportunity'', 2), (''upside'', 2),
      (''downside'', 2), (''conviction'', 2), (''thesis'', 2), (''moat'', 3),
      (''competitive advantage'', 3)]"

definition medium_value_keywords :: "string list" where
  "medium_value_keywords =
     [''stock'', ''share'', ''price'', ''market cap'', ''growth'', ''quarter'', ''quarterly'',
      ''report'', ''guidance'', ''beat'', ''miss'', ''estimate'', ''market'', ''sector'',
      ''revenue'', ''sales'', ''profit'', ''margin'', ''roi'', ''return'', ''performance'',
      ''financial'', ''investor'', ''shareholder'', ''value'', ''worth'', ''evaluation'',
      ''recommendation'', ''rating'', ''upgrade'', ''downgrade'', ''catalyst'', ''momentum'']"

definition spam_keywords :: "string list" where
  "spam_keywords =
     [''subscribe'', ''like and subscribe'', ''check out my'', ''click here'',
      ''giveaway'', ''free money'', ''get rich'', ''first!'', ''early squad'',
      ''notification squad'', ''who else'', ''anyone else'', ''came here from'',
      ''full video'', ''check my channel'', ''dm me'', ''contact me'', ''crypto'']"

text \<open>
  \<^verbatim>\<open>text = comment.get('text', '').lower()\<close>: a missing entry reads as the empty string, an
  entry holding \<^verbatim>\<open>None\<close> raises \<^verbatim>\<open>AttributeError\<close>.
\<close>

definition lowered_text :: "comment \<Rightarrow> error + string" where
  "lowered_text c =
     (case get_default (text c) [] of
        Str s \<Rightarrow> Inr (lower s)
      | _ \<Rightarrow> Inl AttributeError)"

text \<open>The score of a lowercased text with \<open>wc\<close> words: the two keyword loops, then the
  three length bonuses.\<close>

definition keyword_score :: "string \<Rightarrow> int" where
  "keyword_score t =
     fold (\<lambda>keyword s. if py_in keyword t then s + 1 else s) medium_value_keywords
       (fold (\<lambda>(keyword, weight) s. if py_in keyword t then s + weight else s)
          high_value_keywords 0)"

definition relevance_score :: "string \<Rightarrow> nat \<Rightarrow> int" where
  "relevance_score t wc =
     (let s0 = keyword_score t;
          s1 = (if wc > 30 then s0 + 1 else s0);
          s2 = (if wc > 50 then s1 + 2 else s1);
          s3 = (if wc > 100 then s2 + 2 else s2)
      in s3)"

text \<open>An entry of \<^verbatim>\<open>scored_comments\<close>; \<open>item\<close> is its key \<^verbatim>\<open>comment\<close>.\<close>

record scored =
  item :: comment
  score :: int
  word_count :: nat

text \<open>The body of the \<^verbatim>\<open>for comment in comments\<close> loop; \<open>acc\<close> is
  \<^verbatim>\<open>scored_comments\<close>.\<close>

fun score_loop :: "comment list \<Rightarrow> scored list \<Rightarrow> error + scored list" where
  "score_loop [] acc = Inr acc"
| "score_loop (c # cs) acc =
     (case lowered_text c of
        Inl e \<Rightarrow> Inl e
      | Inr t \<Rightarrow>
          let wc = length (split t) in
          if wc < 10 then score_loop cs acc
          else if length (strip t) < 40 then score_loop cs acc
          else if list_ex (\<lambda>spam. py_in spam t) spam_keywords then score_loop cs acc
          else
            let sc = relevance_score t wc in
            if sc \<ge> 4
            then score_loop cs (acc @ [\<lparr>item = c, score = sc, word_count = wc\<rparr>])
            else score_loop cs acc)"

text \<open>
  \<^verbatim>\<open>scored_comments.sort(key=lambda x: x['score'], reverse=True)\<close>: Python's sort is stable,
  also with \<^verbatim>\<open>reverse=True\<close>. It is the stable insertion sort \<open>sort_key\<close> on the negated
  score.
\<close>

definition sort_by_score_desc :: "scored list \<Rightarrow> scored list" where
  "sort_by_score_desc xs = sort_key (\<lambda>x. - score x) xs"

definition filter_financial_comments :: "comment list \<Rightarrow> error + comment list" where
  "filter_financial_comments comments =
     (case score_loop comments [] of
        Inl e \<Rightarrow> Inl e
      | Inr scored_comments \<Rightarrow> Inr (map item (sort_by_score_desc scored_comments)))"


subsection \<open>The filter as the specification words it\<close>

text \<open>
  The score the filter gives a comment, and the four conditions under which it keeps one:
  at least 10 words, at least 40 characters once stripped, no spam phrase, score at
  least 4, all on the lowercased text.
\<close>

definition comment_score :: "comment \<Rightarrow> int" where
  "comment_score c =
     (case lowered_text c of
        Inl e \<Rightarrow> 0
      | Inr t \<Rightarrow> relevance_score t (length (split t)))"

definition qualifies :: "comment \<Rightarrow> bool" where
  "qualifies c =
     (case lowered_text c of
        Inl e \<Rightarrow> False
      | Inr t \<Rightarrow>
          length (split t) \<ge> 10 \<and> length (strip t) \<ge> 40
          \<and> \<not> list_ex (\<lambda>spam. py_in spam t) spam_keywords
          \<and> relevance_score t (length (split t)) \<ge> 4)"

definition scored_of :: "comment \<Rightarrow> scored" where
  "scored_of c =
     \<lparr>item = c, score = comment_score c,
      word_count = (case lowered_text c of Inl e \<Rightarrow> 0 | Inr t \<Rightarrow> length (split t))\<rparr>"

section \<open>Metrics engine\<close>

text \<open>
  A Python value as the dictionaries of the backend hold them. Numbers are real numbers:
  the model has no rounding, no NaN and no infinity.
\<close>

datatype pyval =
    PNone
  | PBool bool
  | PNum real
  | PStr string
  | PList "pyval list"
  | PDict "(string \<times> pyval) list"

type_synonym pydict = "(string \<times> pyval) list"

fun pv_truthy :: "pyval \<Rightarrow> bool" where
  "pv_truthy PNone = False"
| "pv_truthy (PBool b) = b"
| "pv_truthy (PNum x) = (x \<noteq> 0)"
| "pv_truthy (PStr s) = (s \<noteq> [])"
| "pv_truthy (PList xs) = (xs \<noteq> [])"
| "pv_truthy (PDict d) = (d \<noteq> [])"

definition pv_or :: "pyval \<Rightarrow> pyval \<Rightarrow> pyval" where
  "pv_or a b = (if pv_truthy a then a else b)"

text \<open>\<^verbatim>\<open>d.get(k)\<close> and \<^verbatim>\<open>d[k] = v\<close> on a dictionary kept in insertion order.\<close>

definition dict_get :: "pydict \<Rightarrow> string \<Rightarrow> pyval" where
  "dict_get d k = (case map_of d k of None \<Rightarrow> PNone | Some v \<Rightarrow> v)"

definition dict_set :: "pydict \<Rightarrow> string \<Rightarrow> pyval \<Rightarrow> pydict" where
  "dict_set d k v = AList.update k v d"

text \<open>
  An entry of a history row: missing, \<^verbatim>\<open>None\<close>, a number, or \<open>Junk\<close>, a non-empty value
  that \<^verbatim>\<open>float()\<close> and \<^verbatim>\<open>int()\<close> reject with an exception (a non-numeric string, say).
\<close>

datatype cell = Missing | CNone | Num real | Junk

fun get_cell :: "cell \<Rightarrow> cell" where
  "get_cell Missing = CNone"
| "get_cell c = c"

fun cell_truthy :: "cell \<Rightarrow> bool" where
  "cell_truthy (Num x) = (x \<noteq> 0)"
| "cell_truthy Junk = True"
| "cell_truthy _ = False"

definition cell_or :: "cell \<Rightarrow> cell \<Rightarrow> cell" where
  "cell_or a b = (if cell_truthy a then a else b)"

fun py_float :: "cell \<Rightarrow> error + real" where
  "py_float (Num x) = Inr x"
| "py_float Junk = Inl ValueError"
| "py_float _ = Inl TypeError"

text \<open>\<^verbatim>\<open>int(v)\<close> truncates towards zero.\<close>

fun py_int :: "cell \<Rightarrow> error + int" where
  "py_int (Num x) = Inr (if x \<ge> 0 then \<lfloor>x\<rfloor> else \<lceil>x\<rceil>)"
| "py_int Junk = Inl ValueError"
| "py_int _ = Inl TypeError"

definition py_div :: "real \<Rightarrow> real \<Rightarrow> error + real" where
  "py_div a b = (if b = 0 then Inl ZeroDivisionError else Inr (a / b))"

record row =
  Close :: cell
  close :: cell
  Volume :: cell
  volume :: cell

record yahoo =
  info :: pydict
  summary :: pyval
  history :: "row list option"
  metrics_text_attached :: "string option"

text \<open>
  One round of \<^verbatim>\<open>for row in history\<close>. The two appends stand in one \<^verbatim>\<open>try\<close>: when
  \<^verbatim>\<open>float(c)\<close> raises nothing is appended, when \<^verbatim>\<open>int(v)\<close> raises the close has been
  appended already.
\<close>

definition row_step :: "row \<Rightarrow> real list \<times> int list \<Rightarrow> real list \<times> int list" where
  "row_step r acc =
     (let closes = fst acc; volumes = snd acc;
          c = cell_or (get_cell (Close r)) (get_cell (close r));
          v = cell_or (get_cell (Volume r)) (get_cell (volume r))
      in case (if c \<noteq> CNone then map_sum id (\<lambda>x. closes @ [x]) (py_float c) else Inr closes) of
           Inl e \<Rightarrow> (closes, volumes)
         | Inr closes' \<Rightarrow>
             (case (if v \<noteq> CNone then map_sum id (\<lambda>n. volumes @ [n]) (py_int v)
                    else Inr volumes) of
                Inl e \<Rightarrow> (closes', volumes)
              | Inr volumes' \<Rightarrow> (closes', volumes')))"

definition collect_samples :: "row list \<Rightarrow> real list \<times> int list" where
  "collect_samples rows = fold row_step rows ([], [])"

text \<open>\<^verbatim>\<open>values[-window:]\<close>; with \<open>window = 0\<close> the slice is the whole list.\<close>

definition last_n :: "'a list \<Rightarrow> nat \<Rightarrow> 'a list" where
  "last_n values window =
     (if window = 0 then values else drop (length values - window) values)"

definition moving_average :: "real list \<Rightarrow> nat \<Rightarrow> error + real option" where
  "moving_average values window =
     (if length values < window then Inr None
      else map_sum id Some (py_div (sum_list (last_n values window)) (real window)))"

text \<open>
  \<^verbatim>\<open>moving_average(..) or moving_average(..)\<close>: the first result unless it is \<^verbatim>\<open>None\<close> or
  \<open>0.0\<close>, the second otherwise; an exception of the first wins.
\<close>

definition ma_or :: "error + real option \<Rightarrow> error + real option \<Rightarrow> error + real option" where
  "ma_or a b =
     (case a of
        Inl e \<Rightarrow> Inl e
      | Inr None \<Rightarrow> b
      | Inr (Some x) \<Rightarrow> if x \<noteq> 0 then Inr (Some x) else b)"

fun pv_of_option :: "real option \<Rightarrow> pyval" where
  "pv_of_option None = PNone"
| "pv_of_option (Some x) = PNum x"

text \<open>The loop \<^verbatim>\<open>for i in range(1, len(closes))\<close>: a division that raises is skipped.\<close>

fun daily_returns :: "real list \<Rightarrow> real list" where
  "daily_returns (a # b # rest) =
     (case py_div (b - a) a of
        Inl e \<Rightarrow> daily_returns (b # rest)
      | Inr q \<Rightarrow> q # daily_returns (b # rest))"
| "daily_returns _ = []"

text \<open>\<^verbatim>\<open>statistics.pstdev\<close>: the population standard deviation.\<close>

definition pstdev :: "real list \<Rightarrow> error + real" where
  "pstdev xs =
     (if xs = [] then Inl StatisticsError
      else let mu = sum_list xs / real (length xs)
           in Inr (sqrt (sum_list (map (\<lambda>x. (x - mu)\<^sup>2) xs) / real (length xs))))"

text \<open>The part of \<^verbatim>\<open>compute_company_metrics\<close> under \<^verbatim>\<open>if closes:\<close>.\<close>

definition close_metrics :: "real list \<Rightarrow> pydict \<Rightarrow> error + pydict" where
  "close_metrics closes metrics =
     (let pct_change =
            (case py_div (last closes - hd closes) (hd closes) of
               Inl e \<Rightarrow> PNone
             | Inr q \<Rightarrow> PNum (q * 100));
          m1 = dict_set metrics ''period_pct_change'' pct_change
      in case ma_or (moving_average closes 50)
                 (moving_average closes (min 10 (length closes))) of
           Inl e \<Rightarrow> Inl e
         | Inr ma_50 \<Rightarrow>
             let m2 = dict_set m1 ''ma_50'' (pv_of_option ma_50)
             in case ma_or (moving_average closes 200)
                       (moving_average closes (min 50 (length closes))) of
                  Inl e \<Rightarrow> Inl e
                | Inr ma_200 \<Rightarrow>
                    let m3 = dict_set m2 ''ma_200'' (pv_of_option ma_200);
                        returns = daily_returns closes
                    in if returns \<noteq> []
                       then (case pstdev returns of
                               Inl e \<Rightarrow> Inl e
                             | Inr sd \<Rightarrow>
                                 Inr (dict_set m3 ''volatility_annual_approx''
                                        (PNum (sd * sqrt 252))))
                       else Inr (dict_set m3 ''volatility_annual_approx'' PNone))"

definition base_metrics :: "pydict \<Rightarrow> pydict" where
  "base_metrics info_dict =
     (let m = dict_set [] ''market_cap'' (dict_get info_dict ''marketCap'');
          m = dict_set m ''trailing_pe'' (dict_get info_dict ''trailingPE'');
          m = dict_set m ''forward_pe'' (dict_get info_dict ''forwardPE'');
          m = dict_set m ''beta'' (dict_get info_dict ''beta'');
          m = dict_set m ''sector'' (dict_get info_dict ''sector'');
          m = dict_set m ''industry'' (dict_get info_dict ''industry'')
      in m)"

text \<open>The metrics once the samples are collected.\<close>

definition metrics_of_samples :: "pydict \<Rightarrow> real list \<Rightarrow> int list \<Rightarrow> error + pydict" where
  "metrics_of_samples info_dict closes volumes =
     (case (if closes \<noteq> [] then close_metrics closes (base_metrics info_dict)
            else Inr (base_metrics info_dict)) of
        Inl e \<Rightarrow> Inl e
      | Inr m \<Rightarrow>
          if volumes \<noteq> []
          then Inr (dict_set m ''avg_volume''
                      (PNum (real_of_int (sum_list volumes) / real (length volumes))))
          else Inr m)"

text \<open>
  \<^verbatim>\<open>compute_company_metrics(yahoo)\<close>. \<^verbatim>\<open>yahoo.get("history") or []\<close> reads a missing history
  and \<^verbatim>\<open>None\<close> as the empty list.
\<close>

definition compute_company_metrics :: "yahoo \<Rightarrow> error + pydict" where
  "compute_company_metrics y =
     (let rows = (case history y of None \<Rightarrow> [] | Some h \<Rightarrow> h);
          samples = collect_samples rows
      in metrics_of_samples (info y) (fst samples) (snd samples))"


subsection \<open>The samples and two of the metrics, in closed form\<close>



text \<open>The percent change and the volatility that \<open>close_metrics\<close> stores.\<close>

definition pct_change_of :: "real list \<Rightarrow> pyval" where
  "pct_change_of closes =
     (if hd closes = 0 then PNone else PNum ((last closes - hd closes) / hd closes * 100))"

definition volatility_of :: "real list \<Rightarrow> pyval" where
  "volatility_of closes =
     (case pstdev (daily_returns closes) of Inl e \<Rightarrow> PNone | Inr sd \<Rightarrow> PNum (sd * sqrt 252))"

section \<open>External collaborators\<close>

text \<open>
  Every call that leaves the process is recorded as an \<open>event\<close>; a function that makes such
  calls takes the events so far and returns them extended.
\<close>

datatype event =
    TickerInfo string
  | TickerHistory string
  | WikipediaGet string
  | YoutubeSearch string nat
  | YoutubeCommentThreads string "string option"
  | AnthropicMessages string nat

text \<open>An HTTP response: the status, and the parsed body (\<open>None\<close> when \<^verbatim>\<open>r.json()\<close> raises).\<close>

record 'a response =
  status_code :: nat
  json_body :: "'a option"

text \<open>
  An item of a comment-thread page: \<open>Malformed\<close> lacks one of the nested entries that
  \<^verbatim>\<open>item["snippet"]["topLevelComment"]["snippet"]\<close> reads, \<open>TopLevel a t\<close> holds the
  entries \<^verbatim>\<open>authorDisplayName\<close> and \<^verbatim>\<open>textDisplay\<close>.
\<close>

datatype thread_item = Malformed | TopLevel field field

record thread_page =
  thread_items :: "thread_item list"
  nextPageToken :: field

text \<open>
  A search result: \<open>videoId = None\<close> when \<^verbatim>\<open>v["id"]["videoId"]\<close> raises \<^verbatim>\<open>KeyError\<close>,
  \<open>snippet_title = None\<close> when \<^verbatim>\<open>v["snippet"]\<close> does, otherwise the \<^verbatim>\<open>title\<close> entry of
  the snippet.
\<close>

record video_item =
  videoId :: "string option"
  snippet_title :: "field option"

text \<open>
  The providers, the configuration and the library functions the model does not
  implement (the JSON parser, number formatting, \<^verbatim>\<open>str()\<close>, \<^verbatim>\<open>str.upper\<close>, the clock, and
  the fixed text of the prompt templates).
\<close>

record world =
  YOUTUBE_API_KEY :: "string option"
  ANTHROPIC_API_KEY :: "string option"
  yf_info :: "string \<Rightarrow> error + pydict"
  yf_history :: "string \<Rightarrow> error + row list"
  wikipedia_pages :: "string \<Rightarrow> error + pydict list"
  youtube_search :: "string \<Rightarrow> nat \<Rightarrow> error + video_item list response"
  youtube_comment_threads :: "string \<Rightarrow> string option \<Rightarrow> error + thread_page response"
  anthropic_messages :: "string \<Rightarrow> nat \<Rightarrow> error + string"
  json_loads :: "string \<Rightarrow> pyval option"
  py_str :: "pyval \<Rightarrow> string"
  format_2f :: "pyval \<Rightarrow> string"
  format_2pct :: "pyval \<Rightarrow> string"
  format_int :: "pyval \<Rightarrow> string"
  str_upper :: "string \<Rightarrow> string"
  utcnow_isoformat :: string
  analyze_template :: "string \<times> string"
  compare_template :: "nat \<Rightarrow> string"

text \<open>\<^verbatim>\<open>if not config.KEY\<close>: an unset and an empty key are both falsy.\<close>

fun key_set :: "string option \<Rightarrow> bool" where
  "key_set None = False"
| "key_set (Some k) = (k \<noteq> [])"

text \<open>The text of an exception, as \<^verbatim>\<open>str(e)\<close> and \<^verbatim>\<open>f"{e}"\<close> give it.\<close>

fun str_error :: "error \<Rightarrow> string" where
  "str_error (RuntimeError m) = m"
| "str_error (ProviderFailure m) = m"
| "str_error (HTTPError n) = ''HTTP error''"
| "str_error AttributeError = ''AttributeError''"
| "str_error KeyError = ''KeyError''"
| "str_error TypeError = ''TypeError''"
| "str_error ValueError = ''ValueError''"
| "str_error ZeroDivisionError = ''division by zero''"
| "str_error StatisticsError = ''StatisticsError''"

text \<open>\<^verbatim>\<open>r.raise_for_status()\<close> raises on a status from 400 to 599.\<close>

definition raise_for_status :: "nat \<Rightarrow> error + unit" where
  "raise_for_status st = (if 400 \<le> st \<and> st < 600 then Inl (HTTPError st) else Inr ())"

section \<open>Ticker validation and the source fetchers\<close>

record ticker_meta =
  meta_message :: string
  meta_name :: "pyval option"
  meta_info :: pydict

definition validate_ticker ::
  "world \<Rightarrow> string \<Rightarrow> event list \<Rightarrow> (bool \<times> ticker_meta) \<times> event list" where
  "validate_ticker w ticker tr =
     (let tr1 = tr @ [TickerInfo ticker]
      in case yf_info w ticker of
           Inl e \<Rightarrow>
             ((False, \<lparr>meta_message = ''Failed to fetch ticker info: '' @ str_error e,
                       meta_name = None, meta_info = []\<rparr>), tr1)
         | Inr info_dict \<Rightarrow>
             if info_dict = []
             then ((False, \<lparr>meta_message =
                               ''Ticker '' @ ticker @ '' not found or no info available'',
                             meta_name = None, meta_info = []\<rparr>), tr1)
             else
               let name = pv_or (dict_get info_dict ''longName'') (dict_get info_dict ''shortName'')
               in if \<not> pv_truthy name
                  then ((False, \<lparr>meta_message =
                                    ''Ticker '' @ ticker
                                    @ '' appears invalid (no company name found)'',
                                  meta_name = None, meta_info = info_dict\<rparr>), tr1)
                  else ((True, \<lparr>meta_message = ''ok'', meta_name = Some name,
                                 meta_info = info_dict\<rparr>), tr1))"

definition fetch_yahoo_company :: "world \<Rightarrow> string \<Rightarrow> event list \<Rightarrow> yahoo \<times> event list" where
  "fetch_yahoo_company w ticker tr =
     (let result = \<lparr>info = [], summary = PStr [], history = None,
                     metrics_text_attached = None\<rparr>;
          tr1 = tr @ [TickerInfo ticker]
      in case yf_info w ticker of
           Inl e \<Rightarrow> (result, tr1)
         | Inr info_dict \<Rightarrow>
             let result1 = result\<lparr>info := info_dict,
                                  summary :=
                                    pv_or (pv_or (dict_get info_dict ''longBusinessSummary'')
                                             (dict_get info_dict ''shortBusinessSummary''))
                                      (PStr [])\<rparr>;
                 tr2 = tr1 @ [TickerHistory ticker]
             in case yf_history w ticker of
                  Inl e \<Rightarrow> (result1, tr2)
                | Inr hist \<Rightarrow>
                    if hist \<noteq> [] then (result1\<lparr>history := Some hist\<rparr>, tr2)
                    else (result1, tr2))"

definition extract_ticker_metadata_from_info :: "pydict \<Rightarrow> pydict" where
  "extract_ticker_metadata_from_info info_dict =
     (if info_dict = [] then []
      else [(''name'', pv_or (dict_get info_dict ''longName'') (dict_get info_dict ''shortName'')),
            (''sector'', dict_get info_dict ''sector''),
            (''industry'', dict_get info_dict ''industry''),
            (''market_cap'', dict_get info_dict ''marketCap''),
            (''trailing_pe'', dict_get info_dict ''trailingPE''),
            (''forward_pe'', dict_get info_dict ''forwardPE''),
            (''beta'', dict_get info_dict ''beta''),
            (''website'', dict_get info_dict ''website''),
            (''country'', dict_get info_dict ''country'')])"

text \<open>The loop over the pages of the answer: the first page without a \<^verbatim>\<open>missing\<close> entry.\<close>

fun first_page :: "pydict list \<Rightarrow> pydict" where
  "first_page [] = []"
| "first_page (page # pages) =
     (if map_of page ''missing'' \<noteq> None then first_page pages
      else [(''title'', dict_get page ''title''),
            (''summary'', dict_get page ''extract''),
            (''url'', dict_get page ''fullurl'')])"

definition fetch_wikipedia_summary ::
  "world \<Rightarrow> string \<Rightarrow> event list \<Rightarrow> pydict \<times> event list" where
  "fetch_wikipedia_summary w query tr =
     (let tr1 = tr @ [WikipediaGet query]
      in case wikipedia_pages w query of
           Inl e \<Rightarrow> ([], tr1)
         | Inr pages \<Rightarrow> (first_page pages, tr1))"

subsection \<open>Comments of one video\<close>

text \<open>The loop \<^verbatim>\<open>for item in data.get("items", [])\<close> with its \<^verbatim>\<open>break\<close>.\<close>

fun add_items :: "thread_item list \<Rightarrow> comment list \<Rightarrow> nat \<Rightarrow> error + comment list" where
  "add_items [] comments max_comments = Inr comments"
| "add_items (Malformed # its) comments max_comments = Inl KeyError"
| "add_items (TopLevel a t # its) comments max_comments =
     (let comments1 = comments @ [\<lparr>author = get_field a, text = get_field t, body = Absent\<rparr>]
      in if length comments1 \<ge> max_comments then Inr comments1
         else add_items its comments1 max_comments)"

text \<open>
  The loop \<^verbatim>\<open>while len(comments) < max_comments\<close>. A provider that keeps handing out page
  tokens with empty pages keeps it running: the result is \<open>None\<close> then. \<open>Inr\<close> is a
  \<^verbatim>\<open>return\<close>, \<open>Inl\<close> an exception on its way to the handler.
\<close>

partial_function (option) comment_pages ::
  "world \<Rightarrow> string \<Rightarrow> nat \<Rightarrow> string option \<Rightarrow> comment list \<Rightarrow> event list
   \<Rightarrow> ((error + comment list) \<times> event list) option" where
  "comment_pages w video_id max_comments page_token comments tr =
     (if length comments < max_comments
      then
        (let tr1 = tr @ [YoutubeCommentThreads video_id page_token]
         in case youtube_comment_threads w video_id page_token of
              Inl e \<Rightarrow> Some (Inl e, tr1)
            | Inr r \<Rightarrow>
                if status_code r = 403 then Some (Inr [], tr1)
                else
                  (case raise_for_status (status_code r) of
                     Inl e \<Rightarrow> Some (Inl e, tr1)
                   | Inr u \<Rightarrow>
                       (case json_body r of
                          None \<Rightarrow> Some (Inl ValueError, tr1)
                        | Some data \<Rightarrow>
                            (case add_items (thread_items data) comments max_comments of
                               Inl e \<Rightarrow> Some (Inl e, tr1)
                             | Inr comments1 \<Rightarrow>
                                 (case get_field (nextPageToken data) of
                                    Str page \<Rightarrow>
                                      if page = [] then Some (Inr comments1, tr1)
                                      else comment_pages w video_id max_comments (Some page)
                                             comments1 tr1
                                  | _ \<Rightarrow> Some (Inr comments1, tr1))))))
      else Some (Inr comments, tr))"

definition fetch_comments_for_video ::
  "world \<Rightarrow> string \<Rightarrow> nat \<Rightarrow> event list \<Rightarrow> (comment list \<times> event list) option" where
  "fetch_comments_for_video w video_id max_comments tr =
     (if \<not> key_set (YOUTUBE_API_KEY w) then Some ([], tr)
      else
        (case comment_pages w video_id max_comments None [] tr of
           None \<Rightarrow> None
         | Some (Inl e, tr1) \<Rightarrow> Some ([], tr1)
         | Some (Inr comments, tr1) \<Rightarrow> Some (comments, tr1)))"


subsection \<open>Comment corpus of a query\<close>

record video_summary =
  video_id :: string
  title :: string
  url :: string
  top_comments :: "comment list"

record youtube_data =
  all_comments :: "comment list"
  videos :: "video_summary list"

definition empty_youtube_data :: youtube_data where
  "empty_youtube_data = \<lparr>all_comments = [], videos = []\<rparr>"

definition financial_keywords :: "string list" where
  "financial_keywords =
     [''stock'', ''invest'', ''earnings'', ''analysis'', ''buy'', ''sell'', ''financial'',
      ''dividend'', ''valuation'', ''portfolio'', ''market'']"

text \<open>
  The loop \<^verbatim>\<open>for v in videos\<close>. The triple is \<^verbatim>\<open>all_comments\<close>, \<^verbatim>\<open>video_summaries\<close> and
  \<^verbatim>\<open>videos_with_comments\<close>. \<open>Inl\<close> is an exception on its way to the handler of
  \<^verbatim>\<open>fetch_youtube_comments_for_query\<close>.
\<close>

fun video_loop ::
  "world \<Rightarrow> video_item list \<Rightarrow> nat \<Rightarrow> nat
   \<Rightarrow> comment list \<times> video_summary list \<times> nat \<Rightarrow> event list
   \<Rightarrow> ((error + youtube_data) \<times> event list) option" where
  "video_loop w [] max_videos max_comments_per_video (ac, vs, n) tr =
     Some (Inr \<lparr>all_comments = ac, videos = vs\<rparr>, tr)"
| "video_loop w (v # rest) max_videos max_comments_per_video (ac, vs, n) tr =
     (if n \<ge> max_videos then Some (Inr \<lparr>all_comments = ac, videos = vs\<rparr>, tr)
      else
        (case videoId v of
           None \<Rightarrow> Some (Inl KeyError, tr)
         | Some vid \<Rightarrow>
             (case snippet_title v of
                None \<Rightarrow> Some (Inl KeyError, tr)
              | Some title_entry \<Rightarrow>
                  (case get_default title_entry ''Unknown'' of
                     Str video_title \<Rightarrow>
                       if \<not> list_ex (\<lambda>keyword. py_in keyword (lower video_title))
                                financial_keywords
                       then video_loop w rest max_videos max_comments_per_video (ac, vs, n) tr
                       else
                         (case fetch_comments_for_video w vid max_comments_per_video tr of
                            None \<Rightarrow> None
                          | Some (comment_list, tr1) \<Rightarrow>
                              if comment_list \<noteq> []
                              then
                                (case filter_financial_comments comment_list of
                                   Inl e \<Rightarrow> Some (Inl e, tr1)
                                 | Inr relevant_comments \<Rightarrow>
                                     if relevant_comments \<noteq> []
                                     then video_loop w rest max_videos max_comments_per_video
                                            (ac @ relevant_comments,
                                             vs @ [\<lparr>video_id = vid, title = video_title,
                                                     url = ''https://www.youtube.com/watch?v=''
                                                           @ vid,
                                                     top_comments = take 3 relevant_comments\<rparr>],
                                             n + 1) tr1
                                     else video_loop w rest max_videos max_comments_per_video
                                            (ac, vs, n) tr1)
                              else video_loop w rest max_videos max_comments_per_video
                                     (ac, vs, n) tr1)
                   | _ \<Rightarrow> Some (Inl AttributeError, tr)))))"

definition fetch_youtube_comments_for_query ::
  "world \<Rightarrow> string \<Rightarrow> nat \<Rightarrow> nat \<Rightarrow> event list \<Rightarrow> (youtube_data \<times> event list) option" where
  "fetch_youtube_comments_for_query w query max_videos max_comments_per_video tr =
     (if \<not> key_set (YOUTUBE_API_KEY w) then Some (empty_youtube_data, tr)
      else
        (let financial_query = query @ '' stock analysis investment earnings'';
             tr1 = tr @ [YoutubeSearch financial_query (max_videos * 3)]
         in case youtube_search w financial_query (max_videos * 3) of
              Inl e \<Rightarrow> Some (empty_youtube_data, tr1)
            | Inr r \<Rightarrow>
                if status_code r = 403 then Some (empty_youtube_data, tr1)
                else
                  (case raise_for_status (status_code r) of
                     Inl e \<Rightarrow> Some (empty_youtube_data, tr1)
                   | Inr u \<Rightarrow>
                       (case json_body r of
                          None \<Rightarrow> Some (empty_youtube_data, tr1)
                        | Some found \<Rightarrow>
                            (case video_loop w found max_videos max_comments_per_video
                                    ([], [], 0) tr1 of
                               None \<Rightarrow> None
                             | Some (Inl e, tr2) \<Rightarrow> Some (empty_youtube_data, tr2)
                             | Some (Inr data, tr2) \<Rightarrow> Some (data, tr2))))))"

section \<open>LLM synthesizer\<close>

text \<open>
  \<^verbatim>\<open>anthropic_complete(prompt, max_tokens)\<close>: without a key it raises before any call; the
  SDK and the HTTP path both make one call to the provider.
\<close>

definition anthropic_complete ::
  "world \<Rightarrow> string \<Rightarrow> nat \<Rightarrow> event list \<Rightarrow> (error + string) \<times> event list" where
  "anthropic_complete w prompt max_tokens tr =
     (if \<not> key_set (ANTHROPIC_API_KEY w)
      then (Inl (RuntimeError ''ANTHROPIC_API_KEY not configured''), tr)
      else (anthropic_messages w prompt max_tokens, tr @ [AnthropicMessages prompt max_tokens]))"

text \<open>\<^verbatim>\<open>sep.join(xs)\<close>.\<close>

fun join :: "string \<Rightarrow> string list \<Rightarrow> string" where
  "join sep [] = []"
| "join sep [x] = x"
| "join sep (x # y # ys) = x @ sep @ join sep (y # ys)"

text \<open>
  \<^verbatim>\<open>prompts.build_analyze_comments_prompt\<close>: the comments joined by a line of three dashes,
  between the two fixed parts of the template.
\<close>

definition build_analyze_comments_prompt :: "world \<Rightarrow> string list \<Rightarrow> string" where
  "build_analyze_comments_prompt w sample_texts =
     fst (analyze_template w)
     @ join [CHR 0x0A, CHR ''-'', CHR ''-'', CHR ''-'', CHR 0x0A] sample_texts
     @ snd (analyze_template w)"

text \<open>\<^verbatim>\<open>c.get("body") or c.get("text") or ""\<close>.\<close>

definition comment_text :: "comment \<Rightarrow> string" where
  "comment_text c =
     (case py_or (py_or (get_field (body c)) (get_field (text c))) (Str []) of
        Str s \<Rightarrow> s
      | _ \<Rightarrow> [])"

text \<open>The loop \<^verbatim>\<open>for c in comments[:30]\<close> that fills \<^verbatim>\<open>sample_texts\<close>.\<close>

definition sample_texts :: "comment list \<Rightarrow> string list" where
  "sample_texts comments = map (\<lambda>c. safe_truncate (comment_text c) 800) (take 30 comments)"

text \<open>\<^verbatim>\<open>s.find(c)\<close> and \<^verbatim>\<open>s.rfind(c)\<close> for one character; \<open>None\<close> is the result \<open>-1\<close>.\<close>

fun find_char :: "char \<Rightarrow> string \<Rightarrow> nat option" where
  "find_char c [] = None"
| "find_char c (d # s) = (if c = d then Some 0 else map_option Suc (find_char c s))"

fun rfind_char :: "char \<Rightarrow> string \<Rightarrow> nat option" where
  "rfind_char c [] = None"
| "rfind_char c (d # s) =
     (case rfind_char c s of
        Some i \<Rightarrow> Some (Suc i)
      | None \<Rightarrow> if c = d then Some 0 else None)"

text \<open>\<^verbatim>\<open>s[i:j]\<close> for indices within the string; empty when \<open>j \<le> i\<close>.\<close>

definition slice :: "string \<Rightarrow> nat \<Rightarrow> nat \<Rightarrow> string" where
  "slice s i j = take (j - i) (drop i s)"

text \<open>\<^verbatim>\<open>payload.setdefault(k, v)\<close>.\<close>

definition setdefault :: "pydict \<Rightarrow> string \<Rightarrow> pyval \<Rightarrow> pydict" where
  "setdefault d k v = (if map_of d k = None then d @ [(k, v)] else d)"

text \<open>
  The second \<^verbatim>\<open>try\<close> of \<^verbatim>\<open>analyze_comments_with_anthropic\<close>: the parsed payload, or \<open>None\<close>
  when control reaches the \<^verbatim>\<open>return\<close> after the \<^verbatim>\<open>try\<close> (no brace found, the parser raised,
  or the parsed value is no dictionary and \<^verbatim>\<open>setdefault\<close> raised).
\<close>

definition parse_payload :: "world \<Rightarrow> string \<Rightarrow> string \<Rightarrow> pydict option" where
  "parse_payload w source_name resp =
     (let txt = strip resp
      in case (find_char (CHR ''{'') txt, rfind_char (CHR ''}'') txt) of
           (Some start, Some end) \<Rightarrow>
             (case json_loads w (slice txt start (end + 1)) of
                Some (PDict payload) \<Rightarrow> Some (setdefault payload ''source'' (PStr source_name))
              | _ \<Rightarrow> None)
         | _ \<Rightarrow> None)"

definition analyze_comments_with_anthropic ::
  "world \<Rightarrow> comment list \<Rightarrow> string \<Rightarrow> event list \<Rightarrow> pydict \<times> event list" where
  "analyze_comments_with_anthropic w comments source_name tr =
     (if comments = []
      then ([(''source'', PStr source_name), (''summary'', PStr []),
             (''sentiment'', PStr ''neutral''), (''themes'', PList []),
             (''representative'', PList [])], tr)
      else
        (let prompt = build_analyze_comments_prompt w (sample_texts comments)
         in case anthropic_complete w prompt 800 tr of
              (Inl e, tr1) \<Rightarrow>
                ([(''source'', PStr source_name), (''summary'', PStr ''(analysis failed)''),
                  (''sentiment'', PStr ''unknown''), (''themes'', PList []),
                  (''representative'', PList [])], tr1)
            | (Inr resp, tr1) \<Rightarrow>
                (case parse_payload w source_name resp of
                   Some payload \<Rightarrow> (payload, tr1)
                 | None \<Rightarrow> ([(''source'', PStr source_name), (''summary'', PStr resp)], tr1))))"


text \<open>\<^verbatim>\<open>str(v)\<close> as an f-string applies it: a string is itself.\<close>

definition to_str :: "world \<Rightarrow> pyval \<Rightarrow> string" where
  "to_str w v = (case v of PStr s \<Rightarrow> s | _ \<Rightarrow> py_str w v)"

text \<open>
  \<^verbatim>\<open>format_metrics_text(metrics)\<close>. The comparisons of the market cap raise on a value that
  is no number, and the handler prints the value as it is. The format specifications
  \<^verbatim>\<open>.2f\<close>, \<^verbatim>\<open>.2%\<close> and \<^verbatim>\<open>int()\<close> are the formatters of the \<open>world\<close>.
\<close>

definition market_cap_str :: "world \<Rightarrow> pyval \<Rightarrow> string" where
  "market_cap_str w mc =
     (case mc of
        PNum x \<Rightarrow>
          if x \<ge> 1000000000000 then ''$'' @ format_2f w (PNum (x / 1000000000000)) @ ''T''
          else if x \<ge> 1000000000 then ''$'' @ format_2f w (PNum (x / 1000000000)) @ ''B''
          else if x \<ge> 1000000 then ''$'' @ format_2f w (PNum (x / 1000000)) @ ''M''
          else ''$'' @ to_str w mc
      | PBool b \<Rightarrow> ''$'' @ to_str w mc
      | _ \<Rightarrow> to_str w mc)"

definition format_metrics_text :: "world \<Rightarrow> pydict \<Rightarrow> string" where
  "format_metrics_text w metrics =
     (if metrics = [] then ''(no metrics available)''
      else
        (let g = dict_get metrics;
             l0 = (if pv_truthy (g ''sector'')
                   then [''Sector: '' @ to_str w (g ''sector'') @ '', Industry: ''
                         @ to_str w (g ''industry'')]
                   else []);
             l1 = (if g ''market_cap'' \<noteq> PNone
                   then l0 @ [''Market cap: '' @ market_cap_str w (g ''market_cap'')] else l0);
             l2 = (if g ''trailing_pe'' \<noteq> PNone
                   then l1 @ [''Trailing P/E: '' @ to_str w (g ''trailing_pe'')] else l1);
             l3 = (if g ''forward_pe'' \<noteq> PNone
                   then l2 @ [''Forward P/E: '' @ to_str w (g ''forward_pe'')] else l2);
             l4 = (if g ''beta'' \<noteq> PNone
                   then l3 @ [''Beta: '' @ to_str w (g ''beta'')] else l3);
             l5 = (if g ''period_pct_change'' \<noteq> PNone
                   then l4 @ [''Price change over sample: ''
                              @ format_2f w (g ''period_pct_change'') @ ''%'']
                   else l4);
             l6 = (if g ''ma_50'' \<noteq> PNone
                   then l5 @ [''MA-50 (approx): '' @ format_2f w (g ''ma_50'')] else l5);
             l7 = (if g ''ma_200'' \<noteq> PNone
                   then l6 @ [''MA-200 (approx): '' @ format_2f w (g ''ma_200'')] else l6);
             l8 = (if g ''volatility_annual_approx'' \<noteq> PNone
                   then l7 @ [''Approx annual volatility (std): ''
                              @ format_2pct w (g ''volatility_annual_approx'')]
                   else l7);
             l9 = (if g ''avg_volume'' \<noteq> PNone
                   then l8 @ [''Avg volume (sample): '' @ format_int w (g ''avg_volume'')]
                   else l8)
         in join [CHR 0x0A] l9))"

text \<open>
  \<^verbatim>\<open>prompts.build_compare_prompt\<close>: the seven fixed parts of the template, with the two
  section texts, the three source texts and the social text between them.
\<close>

definition social_block :: "world \<Rightarrow> pydict \<Rightarrow> string" where
  "social_block w s =
     ''<source name='' @ [CHR 0x27] @ to_str w (dict_get s ''source'') @ [CHR 0x27] @ ''>''
     @ [CHR 0x0A] @ ''<summary>'' @ to_str w (dict_get s ''summary'') @ ''</summary>''
     @ [CHR 0x0A] @ ''<sentiment>'' @ to_str w (dict_get s ''sentiment'') @ ''</sentiment>''
     @ [CHR 0x0A] @ ''<themes>'' @ to_str w (dict_get s ''themes'') @ ''</themes>''
     @ [CHR 0x0A] @ ''</source>''"

definition build_compare_prompt ::
  "world \<Rightarrow> pyval \<Rightarrow> pyval \<Rightarrow> pydict list \<Rightarrow> string \<Rightarrow> string" where
  "build_compare_prompt w yahoo_summary web_summary social_summaries metrics_text =
     (let social_text =
            (if social_summaries \<noteq> []
             then join [CHR 0x0A, CHR 0x0A] (map (social_block w) social_summaries)
             else ''<note>No YouTube/social media data available - API may be unavailable or quota exceeded</note>'');
          sentiment_section_title =
            (if social_summaries \<noteq> [] then ''Market Sentiment & Public Perception''
             else ''Market Context'');
          sentiment_section_description =
            (if social_summaries \<noteq> []
             then ''Synthesize YouTube/social media sentiment, themes, and investor concerns. Identify consensus views and divergent opinions.''
             else ''Provide general market conditions and industry trends based on available data. Discuss competitive landscape and sector dynamics.'')
      in compare_template w 0 @ sentiment_section_title
         @ compare_template w 1 @ sentiment_section_description
         @ compare_template w 2
         @ to_str w (pv_or yahoo_summary (PStr ''(no yahoo summary available)''))
         @ compare_template w 3
         @ to_str w (pv_or web_summary (PStr ''(no web summary available)''))
         @ compare_template w 4
         @ (if metrics_text \<noteq> [] then metrics_text else ''(no metrics available)'')
         @ compare_template w 5 @ social_text @ compare_template w 6)"

definition compare_and_summarize ::
  "world \<Rightarrow> yahoo \<Rightarrow> pydict \<Rightarrow> pydict list \<Rightarrow> event list \<Rightarrow> pydict \<times> event list" where
  "compare_and_summarize w y web social_summaries tr =
     (let yahoo_summary =
            pv_or (summary y)
              (if info y \<noteq> [] then dict_get (info y) ''longBusinessSummary'' else PStr []);
          web_summary = (if web \<noteq> [] then dict_get web ''summary'' else PStr []);
          metrics_text = (case metrics_text_attached y of None \<Rightarrow> [] | Some t \<Rightarrow> t);
          prompt = build_compare_prompt w yahoo_summary web_summary social_summaries metrics_text;
          inputs = PDict [(''yahoo_summary'', yahoo_summary), (''web_summary'', web_summary),
                          (''metrics_text'', PStr metrics_text)]
      in case anthropic_complete w prompt 2048 tr of
           (Inr md, tr1) \<Rightarrow>
             ([(''markdown'', PStr md), (''source'', PStr ''anthropic''), (''inputs'', inputs)],
              tr1)
         | (Inl e, tr1) \<Rightarrow>
             ([(''markdown'', PStr (''# Error'' @ [CHR 0x0A] @ ''LLM comparator failed to run.'')),
               (''source'', PStr ''anthropic''), (''inputs'', inputs),
               (''error'', PStr (str_error e))], tr1))"

section \<open>Orchestrator\<close>

record full_report =
  ticker :: string
  company_name :: pyval
  metadata :: pydict
  yahoo_data :: yahoo
  wikipedia :: pydict
  social_analyses :: "pydict list"
  youtube_videos :: "video_summary list"
  metrics :: pydict
  metrics_text :: string
  comparator :: pydict
  header :: pydict

text \<open>
  What \<^verbatim>\<open>generate_company_report\<close> returns: the error object with its two entries
  \<^verbatim>\<open>error\<close> and \<^verbatim>\<open>message\<close>, or the report.
\<close>

datatype report = Failure string string | Report full_report

fun report_keys :: "report \<Rightarrow> string list" where
  "report_keys (Failure err msg) = [''error'', ''message'']"
| "report_keys (Report r) =
     [''ticker'', ''company_name'', ''metadata'', ''yahoo'', ''wikipedia'', ''social_analyses'',
      ''youtube_videos'', ''metrics'', ''metrics_text'', ''comparator'', ''header'']"

text \<open>
  \<^verbatim>\<open>generate_company_report(ticker)\<close>, started with no event. The result is \<open>None\<close> when
  the paging of a comment thread never ends; \<open>Inl\<close> is an exception that leaves the
  function.
\<close>

definition generate_company_report ::
  "world \<Rightarrow> string \<Rightarrow> ((error + report) \<times> event list) option" where
  "generate_company_report w tkr =
     (case validate_ticker w tkr [] of
        ((ok, meta), tr1) \<Rightarrow>
          if \<not> ok then Some (Inr (Failure ''ticker_validation_failed'' (meta_message meta)), tr1)
          else
            (let name = (case meta_name meta of None \<Rightarrow> PNone | Some n \<Rightarrow> n)
             in case fetch_yahoo_company w tkr tr1 of
                  (y, tr2) \<Rightarrow>
             (case fetch_wikipedia_summary w (to_str w name) tr2 of
                  (web, tr3) \<Rightarrow>
             (case fetch_youtube_comments_for_query w (to_str w name) 5 100 tr3 of
                  None \<Rightarrow> None
                | Some (yt_data, tr4) \<Rightarrow>
             (case analyze_comments_with_anthropic w (all_comments yt_data) ''YouTube'' tr4 of
                  (yt_analysis, tr5) \<Rightarrow>
             (case compute_company_metrics y of
                  Inl e \<Rightarrow> Some (Inl e, tr5)
                | Inr m \<Rightarrow>
                    (let mtext = format_metrics_text w m;
                         y1 = y\<lparr>metrics_text_attached := Some mtext\<rparr>
                     in case compare_and_summarize w y1 web [yt_analysis] tr5 of
                          (comparator_result, tr6) \<Rightarrow>
                            Some (Inr (Report
                              \<lparr>ticker = str_upper w tkr,
                               company_name = name,
                               metadata = extract_ticker_metadata_from_info (info y1),
                               yahoo_data = y1,
                               wikipedia = web,
                               social_analyses = [yt_analysis],
                               youtube_videos = videos yt_data,
                               metrics = m,
                               metrics_text = mtext,
                               comparator = comparator_result,
                               header =
                                 [(''title'', PStr (''Company Insight Report: '' @ to_str w name
                                                    @ '' ('' @ str_upper w tkr @ '')'')),
                                  (''sources'', PList [PStr ''Yahoo Finance'', PStr ''Wikipedia'',
                                                       PStr ''YouTube'']),
                                  (''generated_at'', PStr (utcnow_isoformat w @ ''Z''))]\<rparr>),
                              tr6))))))))"


section \<open>Example inputs\<close>

definition k_overvalued :: comment where
  "k_overvalued =
     \<lparr>author = Str ''ann'',
      text = Str ''I think this stock is overvalued and the pe ratio is way too high for this kind of growth, would not buy right now'',
      body = Absent\<rparr>"

definition k_first :: comment where
  "k_first = \<lparr>author = Str ''bob'', text = Str ''first! who else is here'', body = Absent\<rparr>"

definition k_balance :: comment where
  "k_balance =
     \<lparr>author = Str ''cy'',
      text = Str ''Great analysis of the balance sheet and cash flow, the dividend yield looks safe and earnings growth supports a long term hold'',
      body = Absent\<rparr>"

definition k_overvalued_again :: comment where
  "k_overvalued_again = k_overvalued\<lparr>author := Str ''dan''\<rparr>"

definition k_spam :: comment where
  "k_spam =
     \<lparr>author = Str ''eve'',
      text = Str ''Subscribe to my channel for free money tips about the stock market, investing and dividend yield every single day'',
      body = Absent\<rparr>"

definition k_walk :: comment where
  "k_walk =
     \<lparr>author = Str ''fay'',
      text = Str ''The weather today is really nice and I went for a long walk in the park with my dog'',
      body = Absent\<rparr>"

definition example_comments :: "comment list" where
  "example_comments = [k_overvalued, k_first, k_balance, k_overvalued_again, k_spam, k_walk]"

definition example_relevant :: "comment list" where
  "example_relevant = [k_balance, k_overvalued, k_overvalued_again]"



definition yahoo_of_rows :: "row list \<Rightarrow> yahoo" where
  "yahoo_of_rows rows =
     \<lparr>info = [], summary = PStr [], history = Some rows, metrics_text_attached = None\<rparr>"





definition base_world :: world where
  "base_world =
     \<lparr>YOUTUBE_API_KEY = Some ''yt-key'',
      ANTHROPIC_API_KEY = Some ''llm-key'',
      yf_info = (\<lambda>t. Inl (ProviderFailure ''no data'')),
      yf_history = (\<lambda>t. Inr []),
      wikipedia_pages = (\<lambda>q. Inr []),
      youtube_search = (\<lambda>q n. Inr \<lparr>status_code = 200, json_body = Some []\<rparr>),
      youtube_comment_threads =
        (\<lambda>v p. Inr \<lparr>status_code = 200,
                      json_body = Some \<lparr>thread_items = [], nextPageToken = Absent\<rparr>\<rparr>),
      anthropic_messages = (\<lambda>p n. Inr ''The comments are mostly positive.''),
      json_loads = (\<lambda>s. None),
      py_str = (\<lambda>v. []),
      format_2f = (\<lambda>v. []),
      format_2pct = (\<lambda>v. []),
      format_int = (\<lambda>v. []),
      str_upper = (\<lambda>s. s),
      utcnow_isoformat = ''2025-01-01T00:00:00'',
      analyze_template = (''<youtube_comments>'', ''</youtube_comments>''),
      compare_template = (\<lambda>n. [])\<rparr>"

definition forbidden_search_world :: world where
  "forbidden_search_world =
     base_world\<lparr>youtube_search := (\<lambda>q n. Inr \<lparr>status_code = 403, json_body = None\<rparr>)\<rparr>"

definition forbidden_thread_world :: world where
  "forbidden_thread_world =
     base_world
       \<lparr>youtube_search :=
          (\<lambda>q n. Inr \<lparr>status_code = 200,
                        json_body = Some [\<lparr>videoId = Some ''v1'',
                                            snippet_title = Some (Str ''Stock analysis'')\<rparr>,
                                          \<lparr>videoId = Some ''v2'',
                                            snippet_title = Some (Str ''Earnings review'')\<rparr>]\<rparr>),
        youtube_comment_threads :=
          (\<lambda>v p. if v = ''v1'' then Inr \<lparr>status_code = 403, json_body = None\<rparr>
                  else Inr \<lparr>status_code = 200,
                            json_body =
                              Some \<lparr>thread_items = [TopLevel (author k_overvalued) (text k_overvalued)],
                                    nextPageToken = Absent\<rparr>\<rparr>)\<rparr>"

definition acme_world :: world where
  "acme_world = base_world\<lparr>yf_info := (\<lambda>t. Inr [(''longName'', PStr ''Acme Corp'')])\<rparr>"


section \<open>Properties of the relevance filter\<close>

lemma lowered_text_Inr: "text c \<noteq> Null \<Longrightarrow> \<exists>t. lowered_text c = Inr t"
  by (cases "text c") (auto simp: lowered_text_def)

lemma lowered_text_Inl: "lowered_text c = Inl e \<Longrightarrow> text c = Null"
  by (cases "text c") (auto simp: lowered_text_def)

lemma score_loop_step:
  "lowered_text c = Inr t \<Longrightarrow>
   score_loop (c # cs) acc =
     (if qualifies c then score_loop cs (acc @ [scored_of c]) else score_loop cs acc)"
  by (simp add: qualifies_def scored_of_def comment_score_def Let_def)

lemma score_loop_filter:
  "\<forall>c\<in>set cs. text c \<noteq> Null \<Longrightarrow>
   score_loop cs acc = Inr (acc @ map scored_of (filter qualifies cs))"
proof (induction cs arbitrary: acc)
  case Nil
  then show ?case by simp
next
  case (Cons c cs)
  then obtain t where t: "lowered_text c = Inr t"
    using lowered_text_Inr by fastforce
  from Cons have IH: "\<And>acc. score_loop cs acc = Inr (acc @ map scored_of (filter qualifies cs))"
    by simp
  show ?case
    unfolding score_loop_step [OF t] by (simp add: IH)
qed

lemma score_loop_Inr_no_null:
  "score_loop cs acc = Inr r \<Longrightarrow> \<forall>c\<in>set cs. text c \<noteq> Null"
proof (induction cs arbitrary: acc)
  case Nil
  then show ?case by simp
next
  case (Cons c cs)
  show ?case
  proof (cases "lowered_text c")
    case (Inl e)
    with Cons.prems show ?thesis by simp
  next
    case (Inr t)
    then have "text c \<noteq> Null" by (auto simp: lowered_text_def)
    moreover have "\<exists>acc'. score_loop cs acc' = Inr r"
      using Cons.prems Inr by (auto simp: Let_def split: if_splits)
    ultimately show ?thesis using Cons.IH by auto
  qed
qed

text \<open>A comment whose \<^verbatim>\<open>text\<close> holds \<^verbatim>\<open>None\<close> makes the whole filter raise.\<close>

lemma lowered_text_Null: "text c = Null \<Longrightarrow> lowered_text c = Inl AttributeError"
  by (simp add: lowered_text_def)

lemma score_loop_raises:
  "\<exists>c\<in>set cs. text c = Null \<Longrightarrow> score_loop cs acc = Inl AttributeError"
proof (induction cs arbitrary: acc)
  case Nil
  then show ?case by simp
next
  case (Cons c cs)
  show ?case
  proof (cases "text c = Null")
    case True
    then show ?thesis by (simp add: lowered_text_Null)
  next
    case False
    with Cons.prems have "\<exists>c\<in>set cs. text c = Null" by auto
    then have "\<And>acc. score_loop cs acc = Inl AttributeError" by (rule Cons.IH)
    moreover obtain t where "lowered_text c = Inr t"
      using False lowered_text_Inr by blast
    ultimately show ?thesis by (simp add: Let_def)
  qed
qed

lemma filter_raises_on_null:
  "\<exists>c\<in>set cs. text c = Null \<Longrightarrow> filter_financial_comments cs = Inl AttributeError"
  by (simp add: filter_financial_comments_def score_loop_raises)

lemma item_scored_of: "item (scored_of c) = c"
  by (simp add: scored_of_def)

lemma score_scored_of: "score (scored_of c) = comment_score c"
  by (simp add: scored_of_def)

lemma sort_key_scored_of:
  "sort_key (\<lambda>x. - score x) (map scored_of xs) =
   map scored_of (sort_key (\<lambda>c. - comment_score c) xs)"
proof (induction xs)
  case Nil
  then show ?case by simp
next
  case (Cons c xs)
  have "insort_key (\<lambda>x. - score x) (scored_of c) (map scored_of ys) =
        map scored_of (insort_key (\<lambda>c. - comment_score c) c ys)" for ys
    by (induction ys) (simp_all add: score_scored_of)
  with Cons show ?case by simp
qed

lemma map_item_scored_of: "map item (map scored_of xs) = xs"
  by (induction xs) (simp_all add: item_scored_of)

lemma filter_financial_comments_eq:
  assumes "\<forall>c\<in>set comments. text c \<noteq> Null"
  shows "filter_financial_comments comments =
         Inr (sort_key (\<lambda>c. - comment_score c) (filter qualifies comments))"
  using score_loop_filter [OF assms, of "[]"]
  by (simp add: filter_financial_comments_def sort_by_score_desc_def sort_key_scored_of map_item_scored_of
      del: map_map)


text \<open>
  Claim C9. The filter is a function of the comment list alone (it takes no \<open>world\<close> and
  no events), so two applications to one list agree; and applied to its own output it
  returns that output unchanged, in the same order.
\<close>

theorem filter_idempotent:
  assumes "filter_financial_comments comments = Inr out"
  shows "filter_financial_comments out = Inr out"
proof -
  let ?f = "\<lambda>c. - comment_score c"
  from assms obtain r where "score_loop comments [] = Inr r"
    by (auto simp: filter_financial_comments_def split: sum.splits)
  then have nn: "\<forall>c\<in>set comments. text c \<noteq> Null"
    by (rule score_loop_Inr_no_null)
  with assms have out: "out = sort_key ?f (filter qualifies comments)"
    by (simp add: filter_financial_comments_eq)
  have "\<forall>c\<in>set out. text c \<noteq> Null" using nn out by auto
  then have "filter_financial_comments out = Inr (sort_key ?f (filter qualifies out))"
    by (rule filter_financial_comments_eq)
  moreover have "filter qualifies out = out"
    unfolding out by (simp add: filter_sort)
  moreover have "sort_key ?f out = out"
    unfolding out by (rule sort_key_id_if_sorted) (rule sorted_sort_key)
  ultimately show ?thesis by simp
qed

lemma example_filtered: "filter_financial_comments example_comments = Inr example_relevant"
  by code_simp


theorem filter_idempotent_witness:
  "filter_financial_comments example_comments = Inr example_relevant
   \<and> filter_financial_comments example_relevant = Inr example_relevant"
  using filter_idempotent [OF example_filtered] example_filtered by simp

section \<open>Properties of the metrics engine\<close>


lemma base_metrics_keys:
  "map fst (base_metrics d) =
     [''market_cap'', ''trailing_pe'', ''forward_pe'', ''beta'', ''sector'', ''industry'']"
  by (simp add: base_metrics_def dict_set_def Let_def)

lemma collect_samples_Nil: "collect_samples [] = ([], [])"
  by (simp add: collect_samples_def)

text \<open>
  Claim C3. When the price history is empty (or \<^verbatim>\<open>None\<close>), the metrics hold the six
  entries read from the company information and nothing else: the period percent
  change, both moving averages, the annualized volatility and the average volume have no
  entry at all, neither a number nor \<^verbatim>\<open>None\<close>.
\<close>

theorem empty_history_metrics:
  assumes "history y = None \<or> history y = Some []"
  shows "\<exists>m. compute_company_metrics y = Inr m
           \<and> map fst m = [''market_cap'', ''trailing_pe'', ''forward_pe'', ''beta'',
                           ''sector'', ''industry'']
           \<and> map_of m ''period_pct_change'' = None
           \<and> map_of m ''ma_50'' = None
           \<and> map_of m ''ma_200'' = None
           \<and> map_of m ''volatility_annual_approx'' = None
           \<and> map_of m ''avg_volume'' = None"
proof -
  have "compute_company_metrics y = Inr (base_metrics (info y))"
    using assms by (auto simp: compute_company_metrics_def collect_samples_Nil metrics_of_samples_def)
  moreover have "map_of (base_metrics (info y)) k = None"
    if "k \<notin> set [''market_cap'', ''trailing_pe'', ''forward_pe'', ''beta'', ''sector'', ''industry'']" for k
    using that base_metrics_keys [of "info y"] by (metis map_of_eq_None_iff set_map)
  ultimately show ?thesis
    by (simp add: base_metrics_keys)
qed

theorem empty_history_metrics_witness:
  "(history (yahoo_of_rows []) = Some [])
   \<and> (\<exists>m. compute_company_metrics (yahoo_of_rows []) = Inr m
           \<and> map fst m = [''market_cap'', ''trailing_pe'', ''forward_pe'', ''beta'',
                           ''sector'', ''industry'']
           \<and> map_of m ''period_pct_change'' = None
           \<and> map_of m ''ma_50'' = None
           \<and> map_of m ''ma_200'' = None
           \<and> map_of m ''volatility_annual_approx'' = None
           \<and> map_of m ''avg_volume'' = None)"
proof -
  have h: "history (yahoo_of_rows []) = Some []" by (simp add: yahoo_of_rows_def)
  then have "history (yahoo_of_rows []) = None \<or> history (yahoo_of_rows []) = Some []" by simp
  from empty_history_metrics [OF this] h show ?thesis by simp
qed


lemma moving_average_short:
  "length values < window \<Longrightarrow> moving_average values window = Inr None"
  by (simp add: moving_average_def)

lemma moving_average_Inr:
  "0 < window \<Longrightarrow> \<exists>r. moving_average values window = Inr r"
  by (auto simp: moving_average_def py_div_def)

lemma ma_or_Inr:
  "a = Inr x \<Longrightarrow> b = Inr y \<Longrightarrow> \<exists>r. ma_or a b = Inr r"
  by (auto simp: ma_or_def split: option.splits)

lemma ma_fallback_Inr:
  assumes "closes \<noteq> []" "0 < k" "0 < n"
  shows "\<exists>r. ma_or (moving_average closes n) (moving_average closes (min k (length closes))) = Inr r"
proof -
  have "0 < min k (length closes)" using assms by simp
  then obtain y where "moving_average closes (min k (length closes)) = Inr y"
    using moving_average_Inr by blast
  moreover obtain x where "moving_average closes n = Inr x"
    using assms(3) moving_average_Inr by blast
  ultimately show ?thesis by (rule ma_or_Inr [rotated])
qed

lemma close_metrics_Inr:
  assumes "closes \<noteq> []"
  shows "\<exists>ma50 ma200.
           ma_or (moving_average closes 50) (moving_average closes (min 10 (length closes))) = Inr ma50
         \<and> ma_or (moving_average closes 200) (moving_average closes (min 50 (length closes))) = Inr ma200
         \<and> close_metrics closes m0 =
             Inr (dict_set (dict_set (dict_set (dict_set m0 ''period_pct_change'' (pct_change_of closes))
                    ''ma_50'' (pv_of_option ma50)) ''ma_200'' (pv_of_option ma200))
                    ''volatility_annual_approx'' (volatility_of closes))"
proof -
  obtain ma50 where a: "ma_or (moving_average closes 50)
      (moving_average closes (min 10 (length closes))) = Inr ma50"
    using ma_fallback_Inr [OF assms, of 10 50] by auto
  obtain ma200 where b: "ma_or (moving_average closes 200)
      (moving_average closes (min 50 (length closes))) = Inr ma200"
    using ma_fallback_Inr [OF assms, of 50 200] by auto
  have "close_metrics closes m0 =
      Inr (dict_set (dict_set (dict_set (dict_set m0 ''period_pct_change'' (pct_change_of closes))
                    ''ma_50'' (pv_of_option ma50)) ''ma_200'' (pv_of_option ma200))
                    ''volatility_annual_approx'' (volatility_of closes))"
    by (simp add: close_metrics_def a b Let_def pct_change_of_def volatility_of_def py_div_def pstdev_def)
  with a b show ?thesis by blast
qed

lemma metrics_of_samples_Inr:
  "\<exists>m. metrics_of_samples d closes volumes = Inr m"
proof (cases "closes = []")
  case True
  then show ?thesis by (simp add: metrics_of_samples_def)
next
  case False
  from close_metrics_Inr [OF False, of "base_metrics d"] obtain m1
    where "close_metrics closes (base_metrics d) = Inr m1" by blast
  with False show ?thesis by (simp add: metrics_of_samples_def)
qed

lemma compute_company_metrics_total: "\<exists>m. compute_company_metrics y = Inr m"
  by (simp add: compute_company_metrics_def Let_def metrics_of_samples_Inr)



















section \<open>Properties of the LLM synthesizer, the fetchers and the orchestrator\<close>

text \<open>
  Claim C7. On the empty comment list \<open>analyze_comments_with_anthropic\<close> returns the
  analysis with sentiment \<^verbatim>\<open>neutral\<close>, the empty summary, no themes and no representative
  quotes, and the events are those it was given: no call reaches the LLM provider.
\<close>

theorem analyze_empty_comments:
  "analyze_comments_with_anthropic w [] source_name tr =
     ([(''source'', PStr source_name), (''summary'', PStr []),
       (''sentiment'', PStr ''neutral''), (''themes'', PList []),
       (''representative'', PList [])], tr)"
  by (simp add: analyze_comments_with_anthropic_def)

lemma find_char_None: "find_char c s = None \<longleftrightarrow> c \<notin> set s"
  by (induction s) auto

lemma parse_payload_no_brace:
  "CHR ''{'' \<notin> set (strip resp) \<Longrightarrow> parse_payload w source_name resp = None"
  by (simp add: parse_payload_def find_char_None [THEN iffD2])

lemma parse_payload_loads_fails:
  "(\<And>s. json_loads w s = None) \<Longrightarrow> parse_payload w source_name resp = None"
  by (simp add: parse_payload_def Let_def split: option.splits)

text \<open>
  Claim C4 says that a response that cannot be parsed gives an analysis whose sentiment
  is \<^verbatim>\<open>unknown\<close>. The code returns the two entries \<^verbatim>\<open>source\<close> and \<^verbatim>\<open>summary\<close> only: the
  analysis has no \<^verbatim>\<open>sentiment\<close> entry at all. (The branch for a failed provider call, just
  above in the source, does set \<^verbatim>\<open>sentiment\<close> to \<^verbatim>\<open>unknown\<close>.)
\<close>

theorem parse_failure_analysis:
  assumes "comments \<noteq> []"
    and "anthropic_complete w (build_analyze_comments_prompt w (sample_texts comments)) 800 tr
           = (Inr resp, tr1)"
    and "parse_payload w source_name resp = None"
  shows "analyze_comments_with_anthropic w comments source_name tr =
           ([(''source'', PStr source_name), (''summary'', PStr resp)], tr1)
       \<and> map_of (fst (analyze_comments_with_anthropic w comments source_name tr)) ''sentiment''
           = None"
  using assms by (simp add: analyze_comments_with_anthropic_def)

theorem parse_failure_analysis_witness:
  "analyze_comments_with_anthropic base_world [k_overvalued] ''YouTube'' [] =
     ([(''source'', PStr ''YouTube''), (''summary'', PStr ''The comments are mostly positive.'')],
      [AnthropicMessages
         (build_analyze_comments_prompt base_world (sample_texts [k_overvalued])) 800])
   \<and> map_of (fst (analyze_comments_with_anthropic base_world [k_overvalued] ''YouTube'' []))
        ''sentiment'' = None"
proof -
  have a: "anthropic_complete base_world
             (build_analyze_comments_prompt base_world (sample_texts [k_overvalued])) 800 []
           = (Inr ''The comments are mostly positive.'',
              [AnthropicMessages
                 (build_analyze_comments_prompt base_world (sample_texts [k_overvalued])) 800])"
    by (simp add: anthropic_complete_def base_world_def)
  have "CHR ''{'' \<notin> set (strip ''The comments are mostly positive.'')"
    by code_simp
  then have p: "parse_payload base_world ''YouTube'' ''The comments are mostly positive.'' = None"
    by (rule parse_payload_no_brace)
  from parse_failure_analysis [OF _ a p] show ?thesis by simp
qed




lemma search_forbidden:
  assumes "key_set (YOUTUBE_API_KEY w)"
    and "youtube_search w (query @ '' stock analysis investment earnings'') (max_videos * 3) = Inr r"
    and "status_code r = 403"
  shows "fetch_youtube_comments_for_query w query max_videos max_comments_per_video tr =
           Some (empty_youtube_data,
                 tr @ [YoutubeSearch (query @ '' stock analysis investment earnings'')
                         (max_videos * 3)])"
  using assms by (simp add: fetch_youtube_comments_for_query_def Let_def)

lemma page_forbidden:
  assumes "length comments < max_comments"
    and "youtube_comment_threads w vid page_token = Inr r"
    and "status_code r = 403"
  shows "comment_pages w vid max_comments page_token comments tr =
           Some (Inr [], tr @ [YoutubeCommentThreads vid page_token])"
  using assms by (subst comment_pages.simps) (simp add: Let_def)

lemma video_skipped:
  assumes "n < max_videos"
    and "videoId v = Some vid"
    and "snippet_title v = Some title_entry"
    and "get_default title_entry ''Unknown'' = Str video_title"
    and "list_ex (\<lambda>keyword. py_in keyword (lower video_title)) financial_keywords"
    and "fetch_comments_for_video w vid max_comments_per_video tr = Some ([], tr1)"
  shows "video_loop w (v # rest) max_videos max_comments_per_video (ac, vs, n) tr =
         video_loop w rest max_videos max_comments_per_video (ac, vs, n) tr1"
  using assms by simp

text \<open>
  Claim C5, amended. With the API key configured: a 403 on the video search call ends the
  whole fetch with the empty result; a 403 on a comment-thread page call, at any round of
  the paging loop, ends the paging of that video with no comment at all (what earlier
  pages gave is dropped, nothing is retried); and a video whose comment list comes back
  empty is skipped: the loop goes on with the next video, its results so far unchanged.
\<close>

theorem forbidden_access:
  assumes "key_set (YOUTUBE_API_KEY w)"
  shows "(\<forall>r. youtube_search w (query @ '' stock analysis investment earnings'') (max_videos * 3)
               = Inr r \<and> status_code r = 403 \<longrightarrow>
            fetch_youtube_comments_for_query w query max_videos max_comments_per_video tr =
              Some (empty_youtube_data,
                    tr @ [YoutubeSearch (query @ '' stock analysis investment earnings'')
                            (max_videos * 3)]))
       \<and> (\<forall>r. length comments < max_comments
               \<and> youtube_comment_threads w vid page_token = Inr r \<and> status_code r = 403 \<longrightarrow>
            comment_pages w vid max_comments page_token comments tr =
              Some (Inr [], tr @ [YoutubeCommentThreads vid page_token]))
       \<and> (\<forall>r. 0 < max_comments
               \<and> youtube_comment_threads w vid None = Inr r \<and> status_code r = 403 \<longrightarrow>
            fetch_comments_for_video w vid max_comments tr =
              Some ([], tr @ [YoutubeCommentThreads vid None]))
       \<and> (\<forall>tr1. n < max_videos \<and> videoId v = Some vid
               \<and> snippet_title v = Some title_entry
               \<and> get_default title_entry ''Unknown'' = Str video_title
               \<and> list_ex (\<lambda>keyword. py_in keyword (lower video_title)) financial_keywords
               \<and> fetch_comments_for_video w vid max_comments_per_video tr = Some ([], tr1) \<longrightarrow>
            video_loop w (v # rest) max_videos max_comments_per_video (ac, vs, n) tr =
            video_loop w rest max_videos max_comments_per_video (ac, vs, n) tr1)"
proof (intro conjI allI impI)
  fix r
  assume "youtube_search w (query @ '' stock analysis investment earnings'') (max_videos * 3)
               = Inr r \<and> status_code r = 403"
  with assms show "fetch_youtube_comments_for_query w query max_videos max_comments_per_video tr =
              Some (empty_youtube_data,
                    tr @ [YoutubeSearch (query @ '' stock analysis investment earnings'')
                            (max_videos * 3)])"
    by (simp add: search_forbidden)
next
  fix r
  assume "length comments < max_comments
               \<and> youtube_comment_threads w vid page_token = Inr r \<and> status_code r = 403"
  then show "comment_pages w vid max_comments page_token comments tr =
              Some (Inr [], tr @ [YoutubeCommentThreads vid page_token])"
    by (simp add: page_forbidden)
next
  fix r
  assume "0 < max_comments
               \<and> youtube_comment_threads w vid None = Inr r \<and> status_code r = 403"
  then have "comment_pages w vid max_comments None [] tr =
              Some (Inr [], tr @ [YoutubeCommentThreads vid None])"
    by (simp add: page_forbidden)
  with assms show "fetch_comments_for_video w vid max_comments tr =
              Some ([], tr @ [YoutubeCommentThreads vid None])"
    by (simp add: fetch_comments_for_video_def)
next
  fix tr1
  assume "n < max_videos \<and> videoId v = Some vid
               \<and> snippet_title v = Some title_entry
               \<and> get_default title_entry ''Unknown'' = Str video_title
               \<and> list_ex (\<lambda>keyword. py_in keyword (lower video_title)) financial_keywords
               \<and> fetch_comments_for_video w vid max_comments_per_video tr = Some ([], tr1)"
  then show "video_loop w (v # rest) max_videos max_comments_per_video (ac, vs, n) tr =
            video_loop w rest max_videos max_comments_per_video (ac, vs, n) tr1"
    by (simp add: video_skipped)
qed

lemma overvalued_kept: "filter_financial_comments [k_overvalued] = Inr [k_overvalued]"
  by code_simp

lemma thread_comment: "\<lparr>author = get_field (author k_overvalued),
    text = get_field (text k_overvalued), body = Absent\<rparr> = k_overvalued"
  by (simp add: k_overvalued_def)

theorem forbidden_access_witness:
  "key_set (YOUTUBE_API_KEY forbidden_search_world)
   \<and> youtube_search forbidden_search_world ''Acme stock analysis investment earnings'' 15 =
       Inr \<lparr>status_code = 403, json_body = None\<rparr>
   \<and> fetch_youtube_comments_for_query forbidden_search_world ''Acme'' 5 100 [] =
       Some (empty_youtube_data, [YoutubeSearch ''Acme stock analysis investment earnings'' 15])
   \<and> key_set (YOUTUBE_API_KEY forbidden_thread_world)
   \<and> youtube_comment_threads forbidden_thread_world ''v1'' None =
       Inr \<lparr>status_code = 403, json_body = None\<rparr>
   \<and> comment_pages forbidden_thread_world ''v1'' 100 None [] [] =
       Some (Inr [], [YoutubeCommentThreads ''v1'' None])
   \<and> fetch_comments_for_video forbidden_thread_world ''v1'' 100 [] =
       Some ([], [YoutubeCommentThreads ''v1'' None])
   \<and> video_loop forbidden_thread_world
         [\<lparr>videoId = Some ''v1'', snippet_title = Some (Str ''Stock analysis'')\<rparr>,
          \<lparr>videoId = Some ''v2'', snippet_title = Some (Str ''Earnings review'')\<rparr>]
         5 100 ([], [], 0) [] =
       video_loop forbidden_thread_world
         [\<lparr>videoId = Some ''v2'', snippet_title = Some (Str ''Earnings review'')\<rparr>]
         5 100 ([], [], 0) [YoutubeCommentThreads ''v1'' None]"
proof -
  have k1: "key_set (YOUTUBE_API_KEY forbidden_search_world)"
    by (simp add: forbidden_search_world_def base_world_def)
  have s1: "youtube_search forbidden_search_world (''Acme'' @ '' stock analysis investment earnings'')
      (5 * 3) = Inr \<lparr>status_code = 403, json_body = None\<rparr>"
    by (simp add: forbidden_search_world_def)
  have k2: "key_set (YOUTUBE_API_KEY forbidden_thread_world)"
    by (simp add: forbidden_thread_world_def base_world_def)
  have s2: "youtube_comment_threads forbidden_thread_world ''v1'' None =
      Inr \<lparr>status_code = 403, json_body = None\<rparr>"
    by (simp add: forbidden_thread_world_def)
  have a: "fetch_youtube_comments_for_query forbidden_search_world ''Acme'' 5 100 [] =
       Some (empty_youtube_data, [YoutubeSearch ''Acme stock analysis investment earnings'' 15])"
    using forbidden_access [OF k1, of "''Acme''" 5 100 "[]"] s1 by simp
  have b: "comment_pages forbidden_thread_world ''v1'' 100 None [] [] =
       Some (Inr [], [YoutubeCommentThreads ''v1'' None])"
    and c: "fetch_comments_for_video forbidden_thread_world ''v1'' 100 [] =
       Some ([], [YoutubeCommentThreads ''v1'' None])"
    using forbidden_access [OF k2, of _ _ _ "[]" "[]" 100 "''v1''" None] s2 by simp_all
  have t: "list_ex (\<lambda>keyword. py_in keyword (lower ''Stock analysis'')) financial_keywords"
    by code_simp
  have d: "video_loop forbidden_thread_world
         [\<lparr>videoId = Some ''v1'', snippet_title = Some (Str ''Stock analysis'')\<rparr>,
          \<lparr>videoId = Some ''v2'', snippet_title = Some (Str ''Earnings review'')\<rparr>]
         5 100 ([], [], 0) [] =
       video_loop forbidden_thread_world
         [\<lparr>videoId = Some ''v2'', snippet_title = Some (Str ''Earnings review'')\<rparr>]
         5 100 ([], [], 0) [YoutubeCommentThreads ''v1'' None]"
    using forbidden_access [OF k2, where max_videos = 5 and max_comments_per_video = 100
        and tr = "[]" and vid = "''v1''" and n = 0
        and v = "\<lparr>videoId = Some ''v1'', snippet_title = Some (Str ''Stock analysis'')\<rparr>"
        and title_entry = "Str ''Stock analysis''" and video_title = "''Stock analysis''"
        and rest = "[\<lparr>videoId = Some ''v2'', snippet_title = Some (Str ''Earnings review'')\<rparr>]"
        and ac = "[]" and vs = "[]"] c t
    by simp
  from k1 s1 a k2 s2 b c d show ?thesis by simp
qed

text \<open>
  The claim as worded, that a 403 on a comment-thread page call yields the empty result,
  fails where the first video answers 403 and the second has a relevant comment: the
  result holds that comment and the second video.
\<close>

theorem forbidden_thread_counterexample:
  "youtube_comment_threads forbidden_thread_world ''v1'' None =
     Inr \<lparr>status_code = 403, json_body = None\<rparr>
   \<and> fetch_youtube_comments_for_query forbidden_thread_world ''Acme'' 5 100 [] =
       Some (\<lparr>all_comments = [k_overvalued],
              videos = [\<lparr>video_id = ''v2'', title = ''Earnings review'',
                         url = ''https://www.youtube.com/watch?v=v2'',
                         top_comments = [k_overvalued]\<rparr>]\<rparr>,
             [YoutubeSearch ''Acme stock analysis investment earnings'' 15,
              YoutubeCommentThreads ''v1'' None,
              YoutubeCommentThreads ''v2'' None])"
proof -
  have s2: "youtube_comment_threads forbidden_thread_world ''v1'' None =
      Inr \<lparr>status_code = 403, json_body = None\<rparr>"
    by (simp add: forbidden_thread_world_def)
  have k: "key_set (YOUTUBE_API_KEY forbidden_thread_world)"
    by (simp add: forbidden_thread_world_def base_world_def)
  have v1: "fetch_comments_for_video forbidden_thread_world ''v1'' 100 tr =
      Some ([], tr @ [YoutubeCommentThreads ''v1'' None])" for tr
    using k s2 by (simp add: fetch_comments_for_video_def comment_pages.simps [of _ "''v1''"])
  have v2: "fetch_comments_for_video forbidden_thread_world ''v2'' 100 tr =
      Some ([k_overvalued], tr @ [YoutubeCommentThreads ''v2'' None])" for tr
    using k
    by (simp add: fetch_comments_for_video_def comment_pages.simps [of _ "''v2''"]
        forbidden_thread_world_def raise_for_status_def thread_comment)
  have t1: "list_ex (\<lambda>keyword. py_in keyword (lower ''Stock analysis'')) financial_keywords"
    by code_simp
  have t2: "list_ex (\<lambda>keyword. py_in keyword (lower ''Earnings review'')) financial_keywords"
    by code_simp
  have "video_loop forbidden_thread_world
          [\<lparr>videoId = Some ''v1'', snippet_title = Some (Str ''Stock analysis'')\<rparr>,
           \<lparr>videoId = Some ''v2'', snippet_title = Some (Str ''Earnings review'')\<rparr>]
          5 100 ([], [], 0) tr =
        Some (Inr \<lparr>all_comments = [k_overvalued],
                    videos = [\<lparr>video_id = ''v2'', title = ''Earnings review'',
                               url = ''https://www.youtube.com/watch?v=v2'',
                               top_comments = [k_overvalued]\<rparr>]\<rparr>,
              tr @ [YoutubeCommentThreads ''v1'' None, YoutubeCommentThreads ''v2'' None])" for tr
    by (simp add: v1 v2 t1 t2 overvalued_kept)
  then have "fetch_youtube_comments_for_query forbidden_thread_world ''Acme'' 5 100 [] =
       Some (\<lparr>all_comments = [k_overvalued],
              videos = [\<lparr>video_id = ''v2'', title = ''Earnings review'',
                         url = ''https://www.youtube.com/watch?v=v2'',
                         top_comments = [k_overvalued]\<rparr>]\<rparr>,
             [YoutubeSearch ''Acme stock analysis investment earnings'' 15,
              YoutubeCommentThreads ''v1'' None,
              YoutubeCommentThreads ''v2'' None])"
    using k
    by (simp add: fetch_youtube_comments_for_query_def forbidden_thread_world_def
        raise_for_status_def)
  with s2 show ?thesis by simp
qed

lemma validate_ticker_events: "snd (validate_ticker w tkr tr) = tr @ [TickerInfo tkr]"
  by (simp add: validate_ticker_def Let_def split: sum.splits)

text \<open>
  Claim C2. When \<open>validate_ticker\<close> returns \<open>valid = False\<close>, \<open>generate_company_report\<close>
  returns the error object, whose only entries are \<^verbatim>\<open>error\<close> and \<^verbatim>\<open>message\<close>, and the events
  of the whole run are the one metadata lookup of the validation: no history, Wikipedia
  or YouTube request and no LLM call.
\<close>

theorem validation_failure_report:
  assumes "validate_ticker w tkr [] = ((False, meta), tr)"
  shows "generate_company_report w tkr =
           Some (Inr (Failure ''ticker_validation_failed'' (meta_message meta)), [TickerInfo tkr])
       \<and> report_keys (Failure ''ticker_validation_failed'' (meta_message meta)) =
           [''error'', ''message'']"
proof -
  from assms validate_ticker_events [of w tkr "[]"] have "tr = [TickerInfo tkr]" by simp
  with assms show ?thesis by (simp add: generate_company_report_def)
qed

theorem validation_failure_report_witness:
  "validate_ticker base_world ''ZZZZ'' [] =
     ((False, \<lparr>meta_message = ''Failed to fetch ticker info: no data'', meta_name = None,
               meta_info = []\<rparr>), [TickerInfo ''ZZZZ''])
   \<and> generate_company_report base_world ''ZZZZ'' =
       Some (Inr (Failure ''ticker_validation_failed'' ''Failed to fetch ticker info: no data''),
             [TickerInfo ''ZZZZ''])
   \<and> report_keys (Failure ''ticker_validation_failed'' ''Failed to fetch ticker info: no data'') =
       [''error'', ''message'']"
proof -
  have v: "validate_ticker base_world ''ZZZZ'' [] =
     ((False, \<lparr>meta_message = ''Failed to fetch ticker info: no data'', meta_name = None,
               meta_info = []\<rparr>), [TickerInfo ''ZZZZ''])"
    by (simp add: validate_ticker_def base_world_def)
  from validation_failure_report [OF v] v show ?thesis by simp
qed

text \<open>
  For comparison, a run whose validation succeeds: the fetchers and the comparator leave
  their events behind the lookup of the validation.
\<close>

lemma validated_run_events:
  "\<exists>r p. generate_company_report acme_world ''ACME'' =
     Some (Inr (Report r),
           [TickerInfo ''ACME'', TickerInfo ''ACME'', TickerHistory ''ACME'',
            WikipediaGet ''Acme Corp'',
            YoutubeSearch ''Acme Corp stock analysis investment earnings'' 15,
            AnthropicMessages p 2048])"
  by (simp add: generate_company_report_def acme_world_def base_world_def validate_ticker_def
      pv_or_def dict_get_def fetch_yahoo_company_def fetch_wikipedia_summary_def to_str_def
      fetch_youtube_comments_for_query_def raise_for_status_def
      analyze_comments_with_anthropic_def compute_company_metrics_def collect_samples_def
      metrics_of_samples_def compare_and_summarize_def anthropic_complete_def Let_def)

end
